theory Spec2Isabelle
  imports Complex_Main
begin

section \<open>Python values and built-ins used by app.py\<close>

text \<open>
  The purchase-order renderer \<^verbatim>\<open>app.py\<close> is Python. Its helpers
  (\<^verbatim>\<open>eur_fmt\<close>, \<^verbatim>\<open>scale_mm\<close>, \<^verbatim>\<open>clean\<close>,
  \<^verbatim>\<open>sanitize_filename\<close>) and the body of \<^verbatim>\<open>build_pdf\<close> are embedded
  below, each as a HOL function of the same name. The built-ins they call
  (\<^verbatim>\<open>str.strip\<close>, \<^verbatim>\<open>str.lower\<close>, \<^verbatim>\<open>re.sub\<close>, \<^verbatim>\<open>float\<close>,
  \<^verbatim>\<open>format\<close>) are modelled first.

  A Python string is a sequence of code points. A \<^typ>\<open>char\<close> stands for a code point
  below 256 (Latin-1), which covers every literal of the program, the preset
  \<^verbatim>\<open>1\<onehalf>" drain\<close> included.
\<close>

subsection \<open>Strings\<close>

text \<open>\<^verbatim>\<open>str.isspace\<close> on one code point; the same set drives \<^verbatim>\<open>str.strip()\<close>
  and the regular-expression class \<^verbatim>\<open>\s\<close>.\<close>

definition isspace :: "char \<Rightarrow> bool" where
  "isspace c = (of_char c \<in> {9, 10, 11, 12, 13, 28, 29, 30, 31, 32, 133, 160 :: nat})"

text \<open>\<^verbatim>\<open>s.strip()\<close>\<close>

definition strip :: "string \<Rightarrow> string" where
  "strip s = rev (dropWhile isspace (rev (dropWhile isspace s)))"

text \<open>\<^verbatim>\<open>s.lower()\<close>: A-Z and the Latin-1 capitals (all of 192..222 but the
  multiplication sign 215) move up by 32; every other code point stays.\<close>

definition lower_char :: "char \<Rightarrow> char" where
  "lower_char c = (let n = of_char c :: nat in
     if (65 \<le> n \<and> n \<le> 90) \<or> (192 \<le> n \<and> n \<le> 222 \<and> n \<noteq> 215)
     then char_of (n + 32) else c)"

definition lower :: "string \<Rightarrow> string" where
  "lower s = map lower_char s"

text \<open>\<^verbatim>\<open>s.endswith(t)\<close>\<close>

definition endswith :: "string \<Rightarrow> string \<Rightarrow> bool" where
  "endswith s t = (length t \<le> length s \<and> drop (length s - length t) s = t)"

text \<open>\<^verbatim>\<open>sep.join(parts)\<close>\<close>

fun join :: "string \<Rightarrow> string list \<Rightarrow> string" where
  "join sep [] = []"
| "join sep [p] = p"
| "join sep (p # q # ps) = p @ sep @ join sep (q # ps)"

text \<open>\<^verbatim>\<open>s.replace(a, b)\<close> for a one-character pattern \<open>a\<close>.\<close>

definition replace :: "char \<Rightarrow> string \<Rightarrow> string \<Rightarrow> string" where
  "replace a b s = concat (map (\<lambda>c. if c = a then b else [c]) s)"

text \<open>The character class \<^verbatim>\<open>[A-Za-z0-9\-\_\s\.]\<close> of \<^verbatim>\<open>sanitize_filename\<close>,
  split into its printable part and \<^verbatim>\<open>\s\<close>.\<close>

definition is_digit :: "char \<Rightarrow> bool" where
  "is_digit c = (48 \<le> (of_char c :: nat) \<and> (of_char c :: nat) \<le> 57)"

definition is_ascii_letter :: "char \<Rightarrow> bool" where
  "is_ascii_letter c = (let n = of_char c :: nat in (65 \<le> n \<and> n \<le> 90) \<or> (97 \<le> n \<and> n \<le> 122))"

definition safe_char :: "char \<Rightarrow> bool" where
  "safe_char c = (is_ascii_letter c \<or> is_digit c \<or> c = CHR ''-'' \<or> c = CHR ''_'' \<or> c = CHR ''.'')"

text \<open>\<^verbatim>\<open>re.sub(r"[^A-Za-z0-9\-\_\s\.]", "", name)\<close>: every character outside the
  class is deleted.\<close>

definition re_sub_unsafe :: "string \<Rightarrow> string" where
  "re_sub_unsafe s = filter (\<lambda>c. safe_char c \<or> isspace c) s"

text \<open>\<^verbatim>\<open>re.sub(r"\s+", "_", safe)\<close>: every maximal run of white space becomes
  one underscore.\<close>

function re_sub_ws :: "string \<Rightarrow> string" where
  "re_sub_ws [] = []"
| "re_sub_ws (c # cs) =
     (if isspace c then CHR ''_'' # re_sub_ws (dropWhile isspace cs) else c # re_sub_ws cs)"
  by pat_completeness auto
termination
  by (relation "measure length") (simp_all add: le_imp_less_Suc length_dropWhile_le)

subsection \<open>Floating-point numbers\<close>

text \<open>
  A Python \<^verbatim>\<open>float\<close> is an IEEE 754 binary64 value: a finite number, a signed zero,
  an infinity or NaN. \<open>Fin q\<close> is the finite value \<open>q\<close> (\<open>Fin 0\<close> is \<open>+0.0\<close>),
  \<open>NegZero\<close> is \<open>-0.0\<close>. Exceptions are values of \<open>pyexn\<close>; \<open>pyval\<close> are the
  dynamically typed arguments that \<^verbatim>\<open>float(x)\<close> and \<^verbatim>\<open>eur_fmt(x)\<close> receive.
\<close>

datatype pyfloat = Fin rat | NegZero | PosInf | NegInf | NaN

datatype pyexn = TypeError | ValueError | OverflowError

datatype pyval = PNone | PBool bool | PInt int | PFloat pyfloat | PStr string

text \<open>Sequencing of computations that may raise.\<close>

definition py_bind :: "pyexn + 'a \<Rightarrow> ('a \<Rightarrow> pyexn + 'b) \<Rightarrow> pyexn + 'b" where
  "py_bind r f = (case r of Inl e \<Rightarrow> Inl e | Inr v \<Rightarrow> f v)"

text \<open>Rounding to the nearest integer, ties to the even one.\<close>

definition round_half_even :: "rat \<Rightarrow> int" where
  "round_half_even x =
     (let f = \<lfloor>x\<rfloor>; d = x - of_int f in
      if d < 1 / 2 then f else if 1 / 2 < d then f + 1 else if even f then f else f + 1)"

text \<open>The number of binary digits of a positive integer.\<close>

function bitlen :: "int \<Rightarrow> nat" where
  "bitlen n = (if n \<le> 0 then 0 else Suc (bitlen (n div 2)))"
  by pat_completeness auto
termination
  by (relation "measure nat") auto

declare bitlen.simps [simp del]

text \<open>For \<open>x > 0\<close>, the exponent \<open>e\<close> with \<open>2\<^sup>e \<le> x < 2\<^sup>e\<^sup>+\<^sup>1\<close>.\<close>

definition log2_floor :: "rat \<Rightarrow> int" where
  "log2_floor x =
     (if 1 \<le> x then int (bitlen \<lfloor>x\<rfloor>) - 1
      else - int (bitlen (\<lceil>1 / x\<rceil> - 1)))"

text \<open>\<open>b\<close> to an integer power, by repeated squaring.\<close>

function ipow :: "rat \<Rightarrow> int \<Rightarrow> rat" where
  "ipow b k =
     (if k = 0 then 1
      else if k < 0 then 1 / ipow b (- k)
      else (ipow b (k div 2))\<^sup>2 * (if even k then 1 else b))"
  by pat_completeness auto
termination
  by (relation "measure (\<lambda>(b, k). if k < 0 then Suc (nat (- k)) else nat k)") auto

declare ipow.simps [simp del]

text \<open>
  Round-to-nearest-even onto binary64: 53 significant bits, the smallest exponent
  \<open>-1022\<close> (below it the spacing stays \<open>2\<^sup>-\<^sup>1\<^sup>0\<^sup>7\<^sup>4\<close>: subnormal numbers), overflow to
  an infinity when the exponent of the rounded value exceeds 1023.
\<close>

definition round_double :: "rat \<Rightarrow> pyfloat" where
  "round_double x =
     (if x = 0 then Fin 0
      else
        let a = \<bar>x\<bar>;
            e = max (log2_floor a) (- 1022);
            q = ipow 2 (e - 52);
            m = round_half_even (a / q);
            e1 = (if m = 2 ^ 53 then e + 1 else e);
            r = of_int m * q
        in if 1023 < e1 then (if x < 0 then NegInf else PosInf)
           else if m = 0 then (if x < 0 then NegZero else Fin 0)
           else Fin (if x < 0 then - r else r))"



definition is_inf :: "pyfloat \<Rightarrow> bool" where
  "is_inf v = (v = PosInf \<or> v = NegInf)"





subsection \<open>Numbers to strings\<close>

definition digit_char :: "int \<Rightarrow> char" where
  "digit_char d = char_of (48 + nat d)"

text \<open>The decimal digits of a non-negative integer, and \<^verbatim>\<open>str(i)\<close>.\<close>

function digits :: "int \<Rightarrow> string" where
  "digits n = (if n < 10 then [digit_char n] else digits (n div 10) @ [digit_char (n mod 10)])"
  by pat_completeness auto
termination
  by (relation "measure nat") auto

declare digits.simps [simp del]


text \<open>The \<^verbatim>\<open>,\<close> option of a format specification: a comma before every group of
  three digits, counted from the right.\<close>

function group3 :: "string \<Rightarrow> string" where
  "group3 ds =
     (if length ds \<le> 3 then ds
      else group3 (take (length ds - 3) ds) @ '','' @ drop (length ds - 3) ds)"
  by pat_completeness auto
termination
  by (relation "measure length") auto

declare group3.simps [simp del]

text \<open>
  \<^verbatim>\<open>f"{v:,.2f}"\<close>: the exact value of the float rounded to two decimals (ties to
  even), a leading minus sign for every negative value and for \<open>-0.0\<close>, the integer
  part grouped; NaN and the infinities print as words.
\<close>

definition format_2f :: "pyfloat \<Rightarrow> string" where
  "format_2f v =
     (case v of
        NaN \<Rightarrow> ''nan''
      | PosInf \<Rightarrow> ''inf''
      | NegInf \<Rightarrow> ''-inf''
      | NegZero \<Rightarrow> ''-0.00''
      | Fin q \<Rightarrow>
          (let n = round_half_even (\<bar>q\<bar> * 100)
           in (if q < 0 then ''-'' else '''') @ group3 (digits (n div 100)) @ ''.'' @
              [digit_char (n mod 100 div 10), digit_char (n mod 10)]))"

subsection \<open>Conversion to float\<close>

text \<open>
  \<^verbatim>\<open>float(s)\<close> on a string: white space is stripped (here \<^verbatim>\<open>\x1c\<close> to \<^verbatim>\<open>\x1f\<close>
  do not count), an underscore may stand between two digits, then follows an optional
  sign and either \<^verbatim>\<open>inf\<close>, \<^verbatim>\<open>infinity\<close>, \<^verbatim>\<open>nan\<close> in any letter case or a
  decimal number with an optional exponent. The value is rounded to the nearest float;
  a number too large becomes an infinity. Anything else raises \<^verbatim>\<open>ValueError\<close>.
\<close>

definition float_space :: "char \<Rightarrow> bool" where
  "float_space c = (of_char c \<in> {9, 10, 11, 12, 13, 32, 133, 160 :: nat})"

definition float_strip :: "string \<Rightarrow> string" where
  "float_strip s = rev (dropWhile float_space (rev (dropWhile float_space s)))"

fun underscores_ok :: "char \<Rightarrow> string \<Rightarrow> bool" where
  "underscores_ok prev [] = (prev \<noteq> CHR ''_'')"
| "underscores_ok prev (c # cs) =
     ((if c = CHR ''_'' then is_digit prev else if prev = CHR ''_'' then is_digit c else True)
      \<and> underscores_ok c cs)"

definition int_of_digits :: "string \<Rightarrow> int" where
  "int_of_digits ds = foldl (\<lambda>a c. 10 * a + (of_char c - 48)) 0 ds"

definition parse_sign :: "string \<Rightarrow> bool \<times> string" where
  "parse_sign s =
     (case s of
        [] \<Rightarrow> (False, [])
      | c # r \<Rightarrow> if c = CHR ''-'' then (True, r) else if c = CHR ''+'' then (False, r) else (False, s))"

definition parse_exponent :: "string \<Rightarrow> int option" where
  "parse_exponent s =
     (case s of
        [] \<Rightarrow> Some 0
      | c # r \<Rightarrow>
          if c = CHR ''e'' \<or> c = CHR ''E'' then
            (let (neg, ds) = parse_sign r in
             if ds \<noteq> [] \<and> list_all is_digit ds
             then Some (if neg then - int_of_digits ds else int_of_digits ds) else None)
          else None)"

definition parse_number :: "string \<Rightarrow> rat option" where
  "parse_number s =
     (let ip = takeWhile is_digit s;
          r1 = dropWhile is_digit s;
          has_dot = (r1 \<noteq> [] \<and> hd r1 = CHR ''.'');
          r2 = (if has_dot then tl r1 else r1);
          fp = (if has_dot then takeWhile is_digit r2 else []);
          r3 = (if has_dot then dropWhile is_digit r2 else r2)
      in if ip = [] \<and> fp = [] then None
         else case parse_exponent r3 of
                None \<Rightarrow> None
              | Some e \<Rightarrow> Some (of_int (int_of_digits (ip @ fp)) * ipow 10 (e - int (length fp))))"

definition float_of_string :: "string \<Rightarrow> pyfloat option" where
  "float_of_string s =
     (let t = float_strip s in
      if \<not> underscores_ok (CHR 0x00) t then None
      else
        let (neg, u) = parse_sign (filter (\<lambda>c. c \<noteq> CHR ''_'') t); l = lower u in
        if l = ''inf'' \<or> l = ''infinity'' then Some (if neg then NegInf else PosInf)
        else if l = ''nan'' then Some NaN
        else case parse_number u of
               None \<Rightarrow> None
             | Some q \<Rightarrow>
                 Some (if q = 0 then (if neg then NegZero else Fin 0)
                       else round_double (if neg then - q else q)))"

text \<open>\<^verbatim>\<open>float(i)\<close> on an integer rounds, and raises \<^verbatim>\<open>OverflowError\<close> where the
  integer is too large.\<close>

definition float_of_int :: "int \<Rightarrow> pyexn + pyfloat" where
  "float_of_int i =
     (let f = round_double (of_int i) in if is_inf f then Inl OverflowError else Inr f)"

text \<open>\<^verbatim>\<open>float(x)\<close>\<close>

definition py_float :: "pyval \<Rightarrow> pyexn + pyfloat" where
  "py_float x =
     (case x of
        PNone \<Rightarrow> Inl TypeError
      | PBool b \<Rightarrow> Inr (Fin (if b then 1 else 0))
      | PInt i \<Rightarrow> float_of_int i
      | PFloat f \<Rightarrow> Inr f
      | PStr s \<Rightarrow> (case float_of_string s of None \<Rightarrow> Inl ValueError | Some f \<Rightarrow> Inr f))"

subsection \<open>Table cells read from the line-item frame\<close>

text \<open>
  The free-text columns of the data frame hold a string, \<^verbatim>\<open>None\<close>, or the
  missing-value marker NaN that pandas puts where a row lacks a key another row has.
\<close>

datatype cell = CNone | CNaN | CStr string

section \<open>Helpers of app.py\<close>

text \<open>
  \<^verbatim>\<open>
  def eur_fmt(x: float) -> str:
      try:
          v = float(x)
      except Exception:
          return ""
      s = f"{v:,.2f}"
      s = s.replace(",", "_").replace(".", ",").replace("_", ".")
      return s
  \<close>
  The result is a sum so that an exception leaving the function would show as \<open>Inl\<close>.
\<close>

definition eur_fmt :: "pyval \<Rightarrow> pyexn + string" where
  "eur_fmt x =
     (case py_float x of
        Inl e \<Rightarrow> Inr ''''
      | Inr v \<Rightarrow>
          (let s = format_2f v;
               s = replace (CHR '','') ''_'' s;
               s = replace (CHR ''.'') '','' s;
               s = replace (CHR ''_'') ''.'' s
           in Inr s))"


text \<open>
  \<^verbatim>\<open>
  def clean(val):
      if val is None:
          return ""
      try:
          if pd.isna(val):
              return ""
      except Exception:
          pass
      sval = str(val).strip()
      if sval.lower() in ("nan", "none", "null"):
          return ""
      return sval
  \<close>
\<close>

fun clean :: "cell \<Rightarrow> string" where
  "clean CNone = ''''"
| "clean CNaN = ''''"
| "clean (CStr s) =
     (let sval = strip s in
      if lower sval \<in> {''nan'', ''none'', ''null''} then '''' else sval)"

text \<open>
  \<^verbatim>\<open>
  def sanitize_filename(name: str) -> str:
      name = (name or "").strip() or "supplier_order"
      safe = re.sub(r"[^A-Za-z0-9\-\_\s\.]", "", name)
      safe = re.sub(r"\s+", "_", safe)
      if not safe.lower().endswith(".pdf"):
          safe += ".pdf"
      return safe
  \<close>
  The argument is a string or \<^verbatim>\<open>None\<close> (\<open>name or ""\<close>).
\<close>

definition sanitize_filename :: "string option \<Rightarrow> string" where
  "sanitize_filename name =
     (let name1 = strip (case name of None \<Rightarrow> '''' | Some s \<Rightarrow> s);
          name2 = (if name1 = [] then ''supplier_order'' else name1);
          safe = re_sub_ws (re_sub_unsafe name2)
      in if \<not> endswith (lower safe) ''.pdf'' then safe @ ''.pdf'' else safe)"

section \<open>The body of build\_pdf\<close>

text \<open>
  \<^verbatim>\<open>
  rows = max(1, len(lines_df))
  body_font = 8 if rows <= 18 else (7 if rows <= 24 else 6)
  small_font = 7 if body_font >= 7 else 6
  \<close>
  The argument is \<^verbatim>\<open>len(lines_df)\<close>; the result is the pair
  \<open>(body_font, small_font)\<close>.
\<close>

definition fit_policy :: "nat \<Rightarrow> nat \<times> nat" where
  "fit_policy n =
     (let rows = max 1 n;
          body_font = (if rows \<le> 18 then 8 else (if rows \<le> 24 then 7 else 6));
          small_font = (if body_font \<ge> 7 then 7 else 6)
      in (body_font, small_font))"

subsection \<open>Order meta data and line items\<close>


text \<open>
  One row of \<^verbatim>\<open>lines_df\<close>. A field is \<open>None\<close> where the frame has no such
  column, so that \<^verbatim>\<open>row.get(key, default)\<close> yields the default. The form stores the
  quantity as \<^verbatim>\<open>int\<close> and both amounts as \<^verbatim>\<open>float\<close>.
\<close>

record row =
  Product_group :: "cell option"
  Quantity :: "int option"
  Model :: "cell option"
  Color :: "cell option"
  Wall_build :: "cell option"
  Drain :: "cell option"
  Note :: "cell option"
  Net_price :: "pyfloat option"
  Total :: "pyfloat option"

text \<open>\<^verbatim>\<open>row.get(key, '')\<close>\<close>

definition get_text :: "cell option \<Rightarrow> cell" where
  "get_text v = (case v of None \<Rightarrow> CStr '''' | Some c \<Rightarrow> c)"



subsection \<open>The article text\<close>

text \<open>
  \<^verbatim>\<open>
  pg = clean(row.get('Product group',''))
  model = clean(row.get('Model',''))
  color = clean(row.get('Color',''))
  wall = clean(row.get('Wall build',''))
  drain = clean(row.get('Drain',''))
  parts = []
  if pg: parts.append(pg)
  if model: parts.append(f"Mod. {model}")
  if wall: parts.append(f"({wall})")
  if color: parts.append(color)
  if pg == "Bins" and drain and drain.lower() != "none":
      parts.append(f"drain: {drain}")
  article = ", ".join(parts)
  \<close>
\<close>

definition article :: "row \<Rightarrow> string" where
  "article r =
     (let pg = clean (get_text (Product_group r));
          model = clean (get_text (Model r));
          color = clean (get_text (Color r));
          wall = clean (get_text (Wall_build r));
          drain = clean (get_text (Drain r));
          parts = [];
          parts = (if pg \<noteq> [] then parts @ [pg] else parts);
          parts = (if model \<noteq> [] then parts @ [''Mod. '' @ model] else parts);
          parts = (if wall \<noteq> [] then parts @ [''('' @ wall @ '')''] else parts);
          parts = (if color \<noteq> [] then parts @ [color] else parts);
          parts = (if pg = ''Bins'' \<and> drain \<noteq> [] \<and> lower drain \<noteq> ''none''
                   then parts @ [''drain: '' @ drain] else parts)
      in join '', '' parts)"

subsection \<open>The item table and the totals\<close>











section \<open>The specification's components, in its own words\<close>

text \<open>
  LineItemRenderer (specification, 4.4): "any value that is empty, whitespace-only, or
  case-insensitively equal to nan/none/null is normalized to an absent value", and the
  display string concatenates "in fixed order, only the parts whose source is present".
  \<open>normalize_spec\<close> reads this literally: a value that stays present is unchanged.
  \<open>normalize_trim\<close> first removes the white space around the value.
\<close>

definition normalize_spec :: "cell \<Rightarrow> string option" where
  "normalize_spec c =
     (case c of
        CNone \<Rightarrow> None
      | CNaN \<Rightarrow> None
      | CStr s \<Rightarrow>
          if s = [] \<or> list_all isspace s \<or> lower s \<in> {''nan'', ''none'', ''null''}
          then None else Some s)"

definition normalize_trim :: "cell \<Rightarrow> string option" where
  "normalize_trim c =
     (case c of
        CNone \<Rightarrow> None
      | CNaN \<Rightarrow> None
      | CStr s \<Rightarrow> normalize_spec (CStr (strip s)))"

definition present_parts ::
  "string option \<Rightarrow> string option \<Rightarrow> string option \<Rightarrow> string option \<Rightarrow> string option
     \<Rightarrow> string list" where
  "present_parts grp model wallBuild color drain =
     (case grp of None \<Rightarrow> [] | Some g \<Rightarrow> [g]) @
     (case model of None \<Rightarrow> [] | Some x \<Rightarrow> [''Mod. '' @ x]) @
     (case wallBuild of None \<Rightarrow> [] | Some w \<Rightarrow> [''('' @ w @ '')'']) @
     (case color of None \<Rightarrow> [] | Some c \<Rightarrow> [c]) @
     (case drain of
        None \<Rightarrow> []
      | Some d \<Rightarrow> if grp = Some ''Bins'' \<and> d \<noteq> ''None'' then [''drain: '' @ d] else [])"

definition LineItemRenderer :: "(cell \<Rightarrow> string option) \<Rightarrow> row \<Rightarrow> string" where
  "LineItemRenderer nrm r =
     join '', ''
       (present_parts (nrm (get_text (Product_group r))) (nrm (get_text (Model r)))
          (nrm (get_text (Wall_build r))) (nrm (get_text (Color r)))
          (nrm (get_text (Drain r))))"

text \<open>A row of a frame without columns, the starting point of the examples.\<close>

definition blank_row :: row where
  "blank_row = \<lparr>Product_group = None, Quantity = None, Model = None, Color = None,
     Wall_build = None, Drain = None, Note = None, Net_price = None, Total = None\<rparr>"

text \<open>
  MoneyFormatter (specification, 4.1): "a string with '.' as thousands separator and
  ',' as decimal separator, exactly two decimal places". \<open>eur_shape\<close> recognises such
  strings: an optional minus sign, one to three digits, any number of groups of a full
  stop and three digits, a comma and two digits.
\<close>

fun eur_tail :: "string \<Rightarrow> bool" where
  "eur_tail (c # d1 # d2 # d3 # r) =
     (c = CHR ''.'' \<and> is_digit d1 \<and> is_digit d2 \<and> is_digit d3 \<and> eur_tail r)"
| "eur_tail [c, d1, d2] = (c = CHR '','' \<and> is_digit d1 \<and> is_digit d2)"
| "eur_tail s = False"

definition eur_shape :: "string \<Rightarrow> bool" where
  "eur_shape s =
     (let u = (case s of [] \<Rightarrow> [] | c # r \<Rightarrow> if c = CHR ''-'' then r else s);
          k = length (takeWhile is_digit u)
      in 1 \<le> k \<and> k \<le> 3 \<and> eur_tail (drop k u))"





section \<open>Properties\<close>

subsection \<open>Fit policy\<close>

text \<open>
  C6. For every row count \<open>n\<close> the body font size is 8 when \<open>n \<le> 18\<close>, 7 when
  \<open>18 < n \<le> 24\<close> and 6 when \<open>n > 24\<close>; the small font size is 7 when the body
  font size is at least 7 and 6 otherwise; row counts 10, 20 and 30 give \<open>(8,7)\<close>,
  \<open>(7,7)\<close> and \<open>(6,6)\<close>.
\<close>

theorem fit_policy_thresholds:
  "(n \<le> 18 \<longrightarrow> fst (fit_policy n) = 8) \<and>
   (18 < n \<and> n \<le> 24 \<longrightarrow> fst (fit_policy n) = 7) \<and>
   (24 < n \<longrightarrow> fst (fit_policy n) = 6) \<and>
   snd (fit_policy n) = (if 7 \<le> fst (fit_policy n) then 7 else 6) \<and>
   fit_policy 10 = (8, 7) \<and> fit_policy 20 = (7, 7) \<and> fit_policy 30 = (6, 6)"
  by (simp add: fit_policy_def Let_def max_def)

theorem fit_policy_thresholds_witness:
  "(18::nat) < 21 \<and> (21::nat) \<le> 24 \<and> fst (fit_policy 21) = 7 \<and> snd (fit_policy 21) = 7"
  using fit_policy_thresholds [of 21] by simp

subsection \<open>File name\<close>

lemma safe_char_not_space: "safe_char c \<Longrightarrow> \<not> isspace c"
  by (auto simp: safe_char_def isspace_def is_ascii_letter_def is_digit_def Let_def)

lemma set_re_sub_ws: "set (re_sub_ws s) \<subseteq> {c \<in> set s. \<not> isspace c} \<union> {CHR ''_''}"
proof (induction s rule: re_sub_ws.induct)
  case 1
  then show ?case by simp
next
  case (2 c cs)
  have "set (dropWhile isspace cs) \<subseteq> set cs" by (rule set_dropWhileD [THEN subsetI])
  with 2 show ?case by (auto split: if_splits)
qed

lemma strip_empty_iff: "strip s = [] \<longleftrightarrow> (\<forall>c \<in> set s. isspace c)"
proof
  assume "strip s = []"
  then have all: "\<forall>c \<in> set (dropWhile isspace s). isspace c"
    by (simp add: strip_def dropWhile_eq_Nil_conv)
  have "dropWhile isspace s = []"
  proof (rule ccontr)
    assume ne: "dropWhile isspace s \<noteq> []"
    then have "\<not> isspace (hd (dropWhile isspace s))" by (rule hd_dropWhile)
    moreover from ne have "hd (dropWhile isspace s) \<in> set (dropWhile isspace s)" by simp
    ultimately show False using all by blast
  qed
  then show "\<forall>c \<in> set s. isspace c" by (simp add: dropWhile_eq_Nil_conv)
next
  assume "\<forall>c \<in> set s. isspace c"
  then show "strip s = []" by (auto simp: strip_def dest: set_dropWhileD)
qed

lemma lower_append: "lower (a @ b) = lower a @ lower b"
  by (simp add: lower_def)

lemma endswith_append: "endswith (a @ t) t"
  by (simp add: endswith_def)

lemma lower_pdf: "lower ''.pdf'' = ''.pdf''"
  by code_simp

lemma default_name: "re_sub_ws (re_sub_unsafe ''supplier_order'') = ''supplier_order''"
  by code_simp

lemma default_ends: "endswith (lower ''supplier_order'') ''.pdf'' = False"
  by code_simp

text \<open>
  C9 (amended). For every input, \<^verbatim>\<open>None\<close> included, the derived file name has no
  white space, consists of ASCII letters, digits, hyphen, underscore and full stop only,
  and ends with \<^verbatim>\<open>.pdf\<close> up to letter case; an empty or all-white-space identifier
  gives \<^verbatim>\<open>supplier_order.pdf\<close>.
\<close>

theorem sanitize_filename_safe:
  "(\<forall>c \<in> set (sanitize_filename name). \<not> isspace c \<and> safe_char c) \<and>
   endswith (lower (sanitize_filename name)) ''.pdf'' \<and>
   ((\<forall>c \<in> set (case name of None \<Rightarrow> [] | Some s \<Rightarrow> s). isspace c) \<longrightarrow>
      sanitize_filename name = ''supplier_order.pdf'')"
proof (intro conjI)
  let ?n1 = "strip (case name of None \<Rightarrow> '''' | Some s \<Rightarrow> s)"
  let ?n2 = "if ?n1 = [] then ''supplier_order'' else ?n1"
  let ?safe = "re_sub_ws (re_sub_unsafe ?n2)"
  have safe: "\<forall>c \<in> set ?safe. safe_char c"
  proof
    fix c assume "c \<in> set ?safe"
    with set_re_sub_ws [of "re_sub_unsafe ?n2"]
    have "c = CHR ''_'' \<or> (c \<in> set (re_sub_unsafe ?n2) \<and> \<not> isspace c)" by auto
    then show "safe_char c"
      by (auto simp: re_sub_unsafe_def) (simp add: safe_char_def)
  qed
  have pdf: "\<forall>c \<in> set ''.pdf''. safe_char c"
    by (simp add: safe_char_def is_ascii_letter_def is_digit_def)
  from safe pdf have "\<forall>c \<in> set (sanitize_filename name). safe_char c"
    by (auto simp: sanitize_filename_def Let_def)
  then show "\<forall>c \<in> set (sanitize_filename name). \<not> isspace c \<and> safe_char c"
    using safe_char_not_space by blast
  show "endswith (lower (sanitize_filename name)) ''.pdf''"
    by (auto simp: sanitize_filename_def Let_def lower_append lower_pdf endswith_append)
  show "(\<forall>c \<in> set (case name of None \<Rightarrow> [] | Some s \<Rightarrow> s). isspace c) \<longrightarrow>
      sanitize_filename name = ''supplier_order.pdf''"
  proof
    assume "\<forall>c \<in> set (case name of None \<Rightarrow> [] | Some s \<Rightarrow> s). isspace c"
    then have "strip (case name of None \<Rightarrow> [] | Some s \<Rightarrow> s) = []"
      by (simp only: strip_empty_iff)
    then show "sanitize_filename name = ''supplier_order.pdf''"
      by (simp add: sanitize_filename_def default_name default_ends)
  qed
qed

theorem sanitize_filename_safe_witness:
  "sanitize_filename (Some '' '') = ''supplier_order.pdf'' \<and>
   endswith (lower (sanitize_filename (Some '' ''))) ''.pdf''"
proof -
  have h: "\<forall>c \<in> set '' ''. isspace c" by (simp add: isspace_def)
  from sanitize_filename_safe [of "Some '' ''"]
  have a: "endswith (lower (sanitize_filename (Some '' ''))) ''.pdf''"
    and b: "(\<forall>c \<in> set '' ''. isspace c) \<longrightarrow>
      sanitize_filename (Some '' '') = ''supplier_order.pdf''"
    by simp_all
  from b h have "sanitize_filename (Some '' '') = ''supplier_order.pdf''" by blast
  with a show ?thesis by blast
qed

text \<open>
  As C9 is stated, the name ends with the fixed extension \<^verbatim>\<open>.pdf\<close>. An identifier
  that already ends in \<^verbatim>\<open>.PDF\<close> passes the case-insensitive test of the function
  and keeps its upper-case extension.
\<close>

theorem sanitize_filename_keeps_upper_case_extension:
  "\<not> endswith (sanitize_filename (Some ''PO-7.PDF'')) ''.pdf''"
  by code_simp

subsection \<open>Article text\<close>

lemma strip_no_trailing_space: "strip s \<noteq> [] \<Longrightarrow> \<not> isspace (last (strip s))"
proof -
  assume ne: "strip s \<noteq> []"
  let ?u = "dropWhile isspace (rev (dropWhile isspace s))"
  from ne have u: "?u \<noteq> []" by (simp add: strip_def)
  then have "\<not> isspace (hd ?u)" by (rule hd_dropWhile)
  moreover from u have "last (strip s) = hd ?u" by (simp add: strip_def last_rev)
  ultimately show ?thesis by simp
qed

lemma strip_not_all_space: "strip s \<noteq> [] \<Longrightarrow> \<not> list_all isspace (strip s)"
proof
  assume ne: "strip s \<noteq> []" and all: "list_all isspace (strip s)"
  from ne have "last (strip s) \<in> set (strip s)" by simp
  with all have "isspace (last (strip s))" by (simp add: list_all_iff)
  with strip_no_trailing_space [OF ne] show False by simp
qed

lemma normalize_trim_clean:
  "normalize_trim c = (if clean c = [] then None else Some (clean c))"
proof (cases c)
  case (CStr s)
  show ?thesis
  proof (cases "strip s = []")
    case True
    with CStr show ?thesis by (simp add: normalize_trim_def normalize_spec_def)
  next
    case False
    with strip_not_all_space [OF False] CStr show ?thesis
      by (simp add: normalize_trim_def normalize_spec_def Let_def)
  qed
qed (simp_all add: normalize_trim_def)

lemma lower_None: "lower ''None'' = ''none''"
  by code_simp

lemma clean_not_none: "clean c \<noteq> [] \<Longrightarrow> lower (clean c) \<noteq> ''none'' \<and> clean c \<noteq> ''None''"
proof (cases c)
  case (CStr s)
  assume "clean c \<noteq> []"
  with CStr have l: "lower (strip s) \<noteq> ''none''" and eq: "clean c = strip s"
    by (auto simp: Let_def split: if_splits)
  from l have "strip s \<noteq> ''None''" using lower_None by auto
  with l eq show ?thesis by simp
qed simp_all

text \<open>
  C2 (amended). For every line item the article string is the specification's renderer
  applied to the fields normalised with trimming: white space around a field is removed
  first, then an empty value or one equal to nan, none or null in any letter case is
  absent, and the present parts are joined with a comma and a space in the order group,
  model, wall build, colour, drain (the drain only for the group Bins). Both examples of
  section 8 of the specification hold.
\<close>

theorem article_renders_trimmed_fields:
  "article r = LineItemRenderer normalize_trim r \<and>
   article (blank_row\<lparr>Product_group := Some (CStr ''Bins''), Model := Some (CStr ''BI-565''),
      Color := Some (CStr ''Blue''), Wall_build := Some (CStr ''EPE''),
      Drain := Some (CStr ''1\" drain'')\<rparr>) = ''Bins, Mod. BI-565, (EPE), Blue, drain: 1\" drain'' \<and>
   article (blank_row\<lparr>Product_group := Some (CStr ''Lids''), Model := Some (CStr ''''),
      Color := Some (CStr ''nan'')\<rparr>) = ''Lids''"
proof (intro conjI)
  show "article r = LineItemRenderer normalize_trim r"
    using clean_not_none [of "get_text (Drain r)"]
    by (auto simp: article_def LineItemRenderer_def present_parts_def normalize_trim_clean Let_def)
  show "article (blank_row\<lparr>Product_group := Some (CStr ''Bins''), Model := Some (CStr ''BI-565''),
      Color := Some (CStr ''Blue''), Wall_build := Some (CStr ''EPE''),
      Drain := Some (CStr ''1\" drain'')\<rparr>) = ''Bins, Mod. BI-565, (EPE), Blue, drain: 1\" drain''"
    by code_simp
  show "article (blank_row\<lparr>Product_group := Some (CStr ''Lids''), Model := Some (CStr ''''),
      Color := Some (CStr ''nan'')\<rparr>) = ''Lids''"
    by code_simp
qed

text \<open>
  As C2 is stated, a value that is not absent is rendered as it is. A colour entered with
  a leading blank is rendered without it.
\<close>

theorem article_trims_where_spec_keeps_space:
  "article (blank_row\<lparr>Product_group := Some (CStr ''Lids''), Color := Some (CStr '' Blue'')\<rparr>)
     = ''Lids, Blue'' \<and>
   LineItemRenderer normalize_spec
     (blank_row\<lparr>Product_group := Some (CStr ''Lids''), Color := Some (CStr '' Blue'')\<rparr>)
     \<noteq> article (blank_row\<lparr>Product_group := Some (CStr ''Lids''), Color := Some (CStr '' Blue'')\<rparr>)"
  by code_simp

subsection \<open>Money formatter: failures and NaN\<close>

text \<open>
  C4. For every argument \<^verbatim>\<open>eur_fmt\<close> returns a string and raises nothing; where
  \<^verbatim>\<open>float(x)\<close> raises, the string is empty, as for \<^verbatim>\<open>"abc"\<close> and \<^verbatim>\<open>None\<close>.
\<close>

theorem eur_fmt_never_raises:
  "(\<exists>s. eur_fmt x = Inr s) \<and>
   ((\<exists>e. py_float x = Inl e) \<longrightarrow> eur_fmt x = Inr '''') \<and>
   eur_fmt (PStr ''abc'') = Inr '''' \<and> eur_fmt PNone = Inr ''''"
proof (intro conjI)
  show "\<exists>s. eur_fmt x = Inr s"
    by (cases "py_float x") (simp_all add: eur_fmt_def Let_def)
  show "(\<exists>e. py_float x = Inl e) \<longrightarrow> eur_fmt x = Inr ''''"
    by (auto simp: eur_fmt_def)
  show "eur_fmt (PStr ''abc'') = Inr ''''" by code_simp
  show "eur_fmt PNone = Inr ''''" by code_simp
qed

theorem eur_fmt_never_raises_witness:
  "py_float (PStr ''12,5'') = Inl ValueError \<and> eur_fmt (PStr ''12,5'') = Inr ''''"
proof -
  have h: "py_float (PStr ''12,5'') = Inl ValueError" by code_simp
  from eur_fmt_never_raises [of "PStr ''12,5''"]
  have "(\<exists>e. py_float (PStr ''12,5'') = Inl e) \<longrightarrow> eur_fmt (PStr ''12,5'') = Inr ''''"
    by blast
  with h show ?thesis by blast
qed

text \<open>
  C10. The string \<^verbatim>\<open>"nan"\<close> and the float NaN are both formatted as \<^verbatim>\<open>nan\<close>,
  which is neither empty nor a two-decimal amount, because \<^verbatim>\<open>float("nan")\<close> succeeds;
  turning nan into an absent value is the work of \<^verbatim>\<open>clean\<close> alone.
\<close>

theorem eur_fmt_nan:
  "eur_fmt (PStr ''nan'') = Inr ''nan'' \<and>
   eur_fmt (PFloat NaN) = Inr ''nan'' \<and>
   py_float (PStr ''nan'') = Inr NaN \<and>
   \<not> eur_shape ''nan'' \<and>
   clean (CStr ''nan'') = '''' \<and> clean CNaN = ''''"
  by code_simp

subsection \<open>Column widths\<close>





subsection \<open>Totals and the empty order\<close>

lemma py_bind_Inr [simp]: "py_bind (Inr v) f = f v"
  by (simp add: py_bind_def)

lemma py_bind_Inl [simp]: "py_bind (Inl e) f = Inl e"
  by (simp add: py_bind_def)
















subsection \<open>Money formatter: the shape of the result\<close>





















end
